theory Spec2Isabelle
  imports Complex_Main "HOL-Library.Word"
begin

section \<open>Python values: errors, indexing, integer conversion\<close>

text \<open>
  The module \<^verbatim>\<open>sfepy/fem/domain.py\<close> builds named regions of a mesh from a small
  selection language. Every \<^verbatim>\<open>raise\<close> of the source is a value \<open>Inl e\<close> of the
  model, every normal return a value \<open>Inr x\<close>.
\<close>

datatype error =
    ValueError string
  | KeyError string
  | IndexError
  | TypeError
  | NotImplementedError string
  | ParseException string
  | EvalError string

text \<open>Entity indices are stored as \<^verbatim>\<open>numpy.uint32\<close>.\<close>

type_synonym index = "32 word"

text \<open>\<^verbatim>\<open>xs[i]\<close> for a non-negative index: out of range raises \<^verbatim>\<open>IndexError\<close>.\<close>

definition getitem :: "'a list \<Rightarrow> nat \<Rightarrow> error + 'a" where
  "getitem xs i = (if i < length xs then Inr (xs ! i) else Inl IndexError)"

text \<open>
  Sequencing: \<open>seq m f\<close> runs \<open>f\<close> on the value of \<open>m\<close>, unless \<open>m\<close> raised.
\<close>

definition seq :: "error + 'a \<Rightarrow> ('a \<Rightarrow> error + 'b) \<Rightarrow> error + 'b" where
  "seq m f = (case m of Inl e \<Rightarrow> Inl e | Inr x \<Rightarrow> f x)"

text \<open>A dictionary lookup \<^verbatim>\<open>m[k]\<close>: a missing key raises the given error.\<close>

definition lookup :: "'a option \<Rightarrow> error \<Rightarrow> error + 'a" where
  "lookup v e = (case v of None \<Rightarrow> Inl e | Some x \<Rightarrow> Inr x)"

text \<open>\<^verbatim>\<open>' '.join(details)\<close>.\<close>

fun join_sp :: "string list \<Rightarrow> string" where
  "join_sp [] = []"
| "join_sp [x] = x"
| "join_sp (x # y # ys) = x @ '' '' @ join_sp (y # ys)"

text \<open>
  \<^verbatim>\<open>int(s)\<close> on a token of the parser: an optional sign followed by decimal digits;
  anything else raises \<^verbatim>\<open>ValueError\<close>.
\<close>

definition is_digit :: "char \<Rightarrow> bool" where
  "is_digit c = (48 \<le> (of_char c :: nat) \<and> (of_char c :: nat) \<le> 57)"

definition decimal :: "string \<Rightarrow> nat" where
  "decimal ds = foldl (\<lambda>a c. 10 * a + (of_char c - 48)) 0 ds"

definition py_digits :: "string \<Rightarrow> error + nat" where
  "py_digits ds =
     (if ds \<noteq> [] \<and> list_all is_digit ds then Inr (decimal ds)
      else Inl (ValueError ''invalid literal for int()''))"

fun py_int :: "string \<Rightarrow> error + int" where
  "py_int [] = Inl (ValueError ''invalid literal for int()'')"
| "py_int (c # cs) =
     (if c = CHR ''-'' then seq (py_digits cs) (\<lambda>n. Inr (- int n))
      else if c = CHR ''+'' then seq (py_digits cs) (\<lambda>n. Inr (int n))
      else seq (py_digits (c # cs)) (\<lambda>n. Inr (int n)))"

text \<open>\<^verbatim>\<open>[int(ii) for ii in xs]\<close>: the first failing conversion raises.\<close>

fun py_ints :: "string list \<Rightarrow> error + int list" where
  "py_ints [] = Inr []"
| "py_ints (x # xs) = seq (py_int x) (\<lambda>i. seq (py_ints xs) (\<lambda>is. Inr (i # is)))"

text \<open>
  \<^verbatim>\<open>nm.array(xs, dtype=nm.uint32)\<close> on Python integers: each value is reduced
  modulo \<open>2 ^ 32\<close>.
\<close>

definition uint32_array :: "int list \<Rightarrow> index list" where
  "uint32_array xs = map word_of_int xs"

text \<open>\<^verbatim>\<open>nm.arange(n, dtype=nm.uint32)\<close>.\<close>

definition arange :: "nat \<Rightarrow> index list" where
  "arange n = map word_of_nat [0..<n]"

section \<open>The data model\<close>

subsection \<open>Regions\<close>

text \<open>
  Modelled from the spec: the class \<^verbatim>\<open>Region\<close> of \<^verbatim>\<open>sfepy/fem/region.py\<close> is not
  among the sources. A region has a name, the selection text it was defined by, a kind,
  an optional parent name, one array of indices for each entity kind, and shape counts
  derived from the arrays. The field \<open>definition_txt\<close> is the attribute
  \<^verbatim>\<open>definition\<close> of the source.
\<close>

record Shape =
  n_vertex :: nat
  n_edge :: nat
  n_face :: nat
  n_facet :: nat
  n_cell :: nat

record Region =
  name :: string
  definition_txt :: string
  kind :: string
  parent :: "string option"
  parse_def :: string
  vertices :: "index list"
  edges :: "index list"
  faces :: "index list"
  facets :: "index list"
  cells :: "index list"
  shape :: Shape

text \<open>
  Modelled from the spec: the constructor \<^verbatim>\<open>Region(name, definition, domain, parse_def)\<close>
  gives a region with no entities yet.
\<close>

definition Region_init :: "string \<Rightarrow> string \<Rightarrow> string \<Rightarrow> Region" where
  "Region_init nm rdef pdef =
     \<lparr>name = nm, definition_txt = rdef, kind = ''cell'', parent = None, parse_def = pdef,
      vertices = [], edges = [], faces = [], facets = [], cells = [],
      shape = \<lparr>n_vertex = 0, n_edge = 0, n_face = 0, n_facet = 0, n_cell = 0\<rparr>\<rparr>"

text \<open>Modelled from the spec: \<^verbatim>\<open>Region.set_kind\<close> tags the region with a kind.\<close>

definition set_kind :: "string \<Rightarrow> Region \<Rightarrow> Region" where
  "set_kind k r = r\<lparr>kind := k\<rparr>"

text \<open>
  Modelled from the spec: \<^verbatim>\<open>Region.update_shape\<close> recomputes the derived shape counts
  from the entity arrays.
\<close>

definition update_shape :: "Region \<Rightarrow> Region" where
  "update_shape r =
     r\<lparr>shape := \<lparr>n_vertex = length (vertices r), n_edge = length (edges r),
                 n_face = length (faces r), n_facet = length (facets r),
                 n_cell = length (cells r)\<rparr>\<rparr>"

text \<open>
  Modelled from the spec: \<^verbatim>\<open>Region.copy\<close> returns a structural duplicate, a new object
  with the same field values.
\<close>

definition copy_region :: "Region \<Rightarrow> Region" where
  "copy_region r = r"

subsection \<open>Mesh, domain and the object store\<close>

record Mesh =
  n_nod :: nat
  dim :: nat
  coors :: "real list list"
  ngroups :: "int list"
  nodal_bcs :: "string \<rightharpoonup> index list"
  el_offsets :: "nat list"

text \<open>
  One entry of the parser's stack: the dictionary \<^verbatim>\<open>{'token' : ..., 'orig' : ...}\<close>.
\<close>

record op =
  token :: string
  orig :: "string list"

text \<open>
  Modelled from the spec: a token of the postfix stack is either a leaf token or an
  operator token (the parser \<^verbatim>\<open>sfepy/fem/parse_regions.py\<close> is not among the sources).
\<close>

datatype stack_item = Leaf op | Operator op

text \<open>
  Regions are Python objects: \<^verbatim>\<open>self.regions\<close> holds references, and a reference
  returned by a leaf may be one of them. The store \<open>heap\<close> maps an address (a position)
  to the object's value; \<open>regions\<close> is the list of addresses in \<^verbatim>\<open>self.regions\<close>.
  The field \<open>groups\<close> gives \<^verbatim>\<open>self.groups[ig].shape.n_el\<close>, \<open>surface_facets\<close> is
  \<^verbatim>\<open>self.cmesh.get_surface_facets()\<close> and \<open>centroids\<close> is
  \<^verbatim>\<open>self.cmesh.get_centroids(dim)\<close>.
\<close>

type_synonym addr = nat

record Domain =
  mesh :: Mesh
  mat_ids_to_i_gs :: "int \<rightharpoonup> nat"
  groups :: "nat \<rightharpoonup> nat"
  surface_facets :: "index list"
  centroids :: "real list list"
  regions :: "addr list"
  region_stack :: "stack_item list"
  heap :: "Region list"

text \<open>
  The services the module calls and that lie outside it: Python's \<^verbatim>\<open>eval\<close> on a
  bracketed index list and on a coordinate relation (the latter already passed through
  \<^verbatim>\<open>nm.where(...)[0]\<close>), the grammar built by \<^verbatim>\<open>create_bnf\<close> and the function
  \<^verbatim>\<open>get_parents\<close> of \<^verbatim>\<open>region.py\<close>. \<open>parseString s\<close> returns the tokens that the parse
  actions pushed on the shared stack and whether the text was accepted; \<open>None\<close> from an
  \<^verbatim>\<open>eval\<close> is an exception raised inside it.
\<close>

record Services =
  eval_list :: "string \<Rightarrow> int list option"
  eval_relation :: "string \<Rightarrow> real list list \<Rightarrow> index list option"
  parseString :: "string \<Rightarrow> stack_item list \<times> bool"
  get_parents :: "string \<Rightarrow> string list"

text \<open>
  The registry \<^verbatim>\<open>functions\<close>: \<^verbatim>\<open>None\<close> by default, otherwise a dictionary from a name
  to a callable on a coordinate array and the domain.
\<close>

type_synonym registry = "(string \<rightharpoonup> (real list list \<Rightarrow> Domain \<Rightarrow> index list)) option"

text \<open>A new object is stored at the next free address.\<close>

definition alloc :: "Domain \<Rightarrow> Region \<Rightarrow> Domain \<times> addr" where
  "alloc d r = (d\<lparr>heap := heap d @ [r]\<rparr>, length (heap d))"

text \<open>
  Modelled from the spec: \<^verbatim>\<open>OneTypeList.find(name)\<close> of \<^verbatim>\<open>sfepy/base/base.py\<close> (not
  among the sources) looks a region up by name and returns \<^verbatim>\<open>None\<close> if there is none;
  \<^verbatim>\<open>regions[name]\<close> raises instead.
\<close>

fun find :: "Region list \<Rightarrow> addr list \<Rightarrow> string \<Rightarrow> addr option" where
  "find h [] nm = None"
| "find h (a # as) nm = (if name (h ! a) = nm then Some a else find h as nm)"

definition getitem_name :: "Region list \<Rightarrow> addr list \<Rightarrow> string \<Rightarrow> error + addr" where
  "getitem_name h rs nm = lookup (find h rs nm) IndexError"

text \<open>\<^verbatim>\<open>assert_(cond)\<close> of \<^verbatim>\<open>sfepy/base/base.py\<close> raises \<^verbatim>\<open>ValueError\<close>.\<close>

definition assert_failed :: error where
  "assert_failed = ValueError ''assertion failed!''"

section \<open>The leaf evaluator\<close>

text \<open>
  \<^verbatim>\<open>functions[where]\<close>: subscripting \<^verbatim>\<open>None\<close> raises \<^verbatim>\<open>TypeError\<close>, a missing key
  raises \<^verbatim>\<open>KeyError\<close>.
\<close>

definition lookup_function ::
  "registry \<Rightarrow> string \<Rightarrow> error + (real list list \<Rightarrow> Domain \<Rightarrow> index list)" where
  "lookup_function fs w = seq (lookup fs TypeError) (\<lambda>m. lookup (m w) (KeyError w))"

text \<open>
  The bracketed branch of \<^verbatim>\<open>E_VIR\<close>: the list is converted to \<^verbatim>\<open>uint32\<close>, then
  \<^verbatim>\<open>nm.amin\<close> and \<^verbatim>\<open>nm.amax\<close> (which raise \<^verbatim>\<open>ValueError\<close> on an empty array) are
  checked by \<^verbatim>\<open>assert_\<close>.
\<close>

definition checked_vertices :: "Domain \<Rightarrow> int list \<Rightarrow> error + index list" where
  "checked_vertices d xs =
     (let vs = uint32_array xs in
      if vs = [] then Inl (ValueError ''zero-size array to reduction operation'')
      else if \<not> (0 \<le> unat (Min (set vs))) then Inl assert_failed
      else if \<not> (unat (Max (set vs)) < n_nod (mesh d)) then Inl assert_failed
      else Inr vs)"

text \<open>
  \<^verbatim>\<open>domain.mesh.el_offsets[ig]\<close> for a Python integer \<open>ig\<close>: a negative index counts
  from the end.
\<close>

definition el_offset :: "Domain \<Rightarrow> int \<Rightarrow> error + nat" where
  "el_offset d ig =
     (let offs = el_offsets (mesh d);
          j = (if ig < 0 then int (length offs) + ig else ig) in
      if j < 0 \<or> int (length offs) \<le> j then Inl IndexError else Inr (offs ! nat j))"

text \<open>
  The loop of \<^verbatim>\<open>E_CI2\<close> over the pairs \<^verbatim>\<open>(ig, iel)\<close> of \<^verbatim>\<open>details[1:]\<close>; \<open>num\<close> pairs
  are read, \<open>ii\<close> counts them.
\<close>

fun ci2_cells :: "Domain \<Rightarrow> string list \<Rightarrow> nat \<Rightarrow> nat \<Rightarrow> error + int list" where
  "ci2_cells d details ii 0 = Inr []"
| "ci2_cells d details ii (Suc k) =
     seq (getitem details (1 + 2 * ii)) (\<lambda>s1.
     seq (py_int s1) (\<lambda>ig.
     seq (getitem details (2 + 2 * ii)) (\<lambda>s2.
     seq (py_int s2) (\<lambda>iel.
     seq (el_offset d ig) (\<lambda>off.
     seq (ci2_cells d details (Suc ii) k) (\<lambda>cs.
     Inr ((iel + int off) # cs)))))))"

text \<open>
  \<^verbatim>\<open>region_leaf(domain, regions, rdef, functions)\<close> returns the visitor
  \<^verbatim>\<open>_region_leaf(level, op)\<close>; the list \<^verbatim>\<open>regions\<close> is \<^verbatim>\<open>domain.regions\<close>. The branch
  for \<^verbatim>\<open>KW_Region\<close> returns the address of an object; every other branch fills the new
  region \<open>region\<close> that the visitor created first.
\<close>

definition leaf_reference :: "Domain \<Rightarrow> string \<Rightarrow> string list \<Rightarrow> error + (Domain \<times> addr)" where
  "leaf_reference d rdef details =
     seq (getitem details 1) (\<lambda>s.
       let nm = drop 2 s in
       (case find (heap d) (regions d) nm of
          None \<Rightarrow> Inl (ValueError (''region '' @ nm @ '' does not exist''))
        | Some aux \<Rightarrow>
            if take 4 rdef = ''copy'' then Inr (alloc d (copy_region (heap d ! aux)))
            else Inr (d, aux)))"

definition leaf_new ::
  "Services \<Rightarrow> Domain \<Rightarrow> registry \<Rightarrow> string \<Rightarrow> string list \<Rightarrow> Region \<Rightarrow> error + Region" where
  "leaf_new sv d fs tok details region =
     (if tok = ''KW_All'' then Inr (region\<lparr>vertices := arange (n_nod (mesh d))\<rparr>)
      else if tok = ''E_VIR'' then
        seq (getitem details 2) (\<lambda>w.
        seq (getitem w 0) (\<lambda>c.
          if c = CHR ''['' then
            seq (lookup (eval_list sv w) (EvalError w)) (\<lambda>xs.
            seq (checked_vertices d xs) (\<lambda>vs. Inr (region\<lparr>vertices := vs\<rparr>)))
          else
            seq (lookup (eval_relation sv w (coors (mesh d))) (EvalError w)) (\<lambda>vs.
            Inr (region\<lparr>vertices := vs\<rparr>))))
      else if tok = ''E_VOS'' then
        Inr ((set_kind ''facet'' region)\<lparr>facets := surface_facets d\<rparr>)
      else if tok = ''E_VBF'' then
        seq (getitem details 2) (\<lambda>w.
        seq (lookup_function fs w) (\<lambda>f. Inr (region\<lparr>vertices := f (coors (mesh d)) d\<rparr>)))
      else if tok = ''E_CBF'' then
        seq (getitem details 2) (\<lambda>w.
        seq (lookup_function fs w) (\<lambda>f. Inr (region\<lparr>cells := f (centroids d) d\<rparr>)))
      else if tok = ''E_COG'' then
        seq (getitem details 3) (\<lambda>s.
        seq (py_int s) (\<lambda>g.
        seq (lookup (mat_ids_to_i_gs d g) (KeyError s)) (\<lambda>ig.
        seq (lookup (groups d ig) (KeyError s)) (\<lambda>n_el.
        seq (getitem (el_offsets (mesh d)) ig) (\<lambda>off.
        Inr (region\<lparr>cells := map (\<lambda>i. word_of_nat (off + i)) [0..<n_el]\<rparr>))))))
      else if tok = ''E_COSET'' then
        Inl (NotImplementedError ''element sets not implemented!'')
      else if tok = ''E_VOG'' then
        seq (getitem details 3) (\<lambda>s.
        seq (py_int s) (\<lambda>g.
          let tags = ngroups (mesh d) in
          Inr (region\<lparr>vertices :=
                 map word_of_nat (filter (\<lambda>i. tags ! i = g) [0..<length tags])\<rparr>)))
      else if tok = ''E_VOSET'' then
        seq (getitem details 3) (\<lambda>s.
        seq (lookup (nodal_bcs (mesh d) s) (ValueError (''undefined vertex set! ('' @ s @ '')'')))
          (\<lambda>vs. Inr (region\<lparr>vertices := vs\<rparr>)))
      else if tok = ''E_OVIR'' then
        seq (getitem details 3) (\<lambda>s.
        seq (getitem_name (heap d) (regions d) (drop 2 s)) (\<lambda>aux.
        Inr (region\<lparr>vertices := take 1 (vertices (heap d ! aux))\<rparr>)))
      else if tok = ''E_VI'' then
        seq (py_ints (drop 1 details)) (\<lambda>xs. Inr (region\<lparr>vertices := uint32_array xs\<rparr>))
      else if tok = ''E_CI1'' then
        seq (py_ints (drop 1 details)) (\<lambda>xs. Inr (region\<lparr>cells := uint32_array xs\<rparr>))
      else if tok = ''E_CI2'' then
        seq (ci2_cells d details 0 (length (drop 1 details) div 2))
          (\<lambda>xs. Inr (region\<lparr>cells := uint32_array xs\<rparr>))
      else Inl (NotImplementedError tok))"

definition region_leaf ::
  "Services \<Rightarrow> Domain \<Rightarrow> string \<Rightarrow> registry \<Rightarrow> nat \<Rightarrow> op \<Rightarrow> error + (Domain \<times> addr)" where
  "region_leaf sv d rdef fs level opc =
     (let tok = token opc; details = orig opc in
      if tok = ''KW_Region'' then leaf_reference d rdef details
      else
        seq (leaf_new sv d fs tok details
               (Region_init ''leaf'' rdef (tok @ ''<'' @ join_sp details @ ''>'')))
          (\<lambda>region. Inr (alloc d region)))"

section \<open>The operator evaluator\<close>

text \<open>
  Modelled from the spec: the methods \<^verbatim>\<open>Region.eval_op_vertices\<close>, \<^verbatim>\<open>eval_op_edges\<close>,
  \<^verbatim>\<open>eval_op_faces\<close>, \<^verbatim>\<open>eval_op_facets\<close> and \<^verbatim>\<open>eval_op_cells\<close> are not among the
  sources. Each returns a new region whose kind and populated field are the target kind,
  holding the difference (\<open>-\<close>), union (\<open>+\<close>) or intersection (\<open>*\<close>) of the operands'
  fields of that kind; the array of the result is kept sorted and free of duplicates.
\<close>

definition set_op :: "char \<Rightarrow> index list \<Rightarrow> index list \<Rightarrow> index list" where
  "set_op c xs ys =
     (if c = CHR ''-'' then sort (remdups (filter (\<lambda>x. x \<notin> set ys) xs))
      else if c = CHR ''+'' then sort (remdups (xs @ ys))
      else sort (remdups (filter (\<lambda>x. x \<in> set ys) xs)))"

definition op_region :: "Region \<Rightarrow> Region \<Rightarrow> char \<Rightarrow> string \<Rightarrow> Region" where
  "op_region r1 r2 c knd =
     set_kind knd
       (Region_init ''op'' (definition_txt r1)
          (parse_def r1 @ '' '' @ [c] @ take 1 knd @ '' '' @ parse_def r2))"

definition eval_op_vertices :: "Domain \<Rightarrow> addr \<Rightarrow> addr \<Rightarrow> char \<Rightarrow> error + (Domain \<times> addr)" where
  "eval_op_vertices d a1 a2 c =
     (let r1 = heap d ! a1; r2 = heap d ! a2 in
      Inr (alloc d ((op_region r1 r2 c ''vertex'')
                      \<lparr>vertices := set_op c (vertices r1) (vertices r2)\<rparr>)))"

definition eval_op_edges :: "Domain \<Rightarrow> addr \<Rightarrow> addr \<Rightarrow> char \<Rightarrow> error + (Domain \<times> addr)" where
  "eval_op_edges d a1 a2 c =
     (let r1 = heap d ! a1; r2 = heap d ! a2 in
      Inr (alloc d ((op_region r1 r2 c ''edge'')
                      \<lparr>edges := set_op c (edges r1) (edges r2)\<rparr>)))"

definition eval_op_faces :: "Domain \<Rightarrow> addr \<Rightarrow> addr \<Rightarrow> char \<Rightarrow> error + (Domain \<times> addr)" where
  "eval_op_faces d a1 a2 c =
     (let r1 = heap d ! a1; r2 = heap d ! a2 in
      Inr (alloc d ((op_region r1 r2 c ''face'')
                      \<lparr>faces := set_op c (faces r1) (faces r2)\<rparr>)))"

definition eval_op_facets :: "Domain \<Rightarrow> addr \<Rightarrow> addr \<Rightarrow> char \<Rightarrow> error + (Domain \<times> addr)" where
  "eval_op_facets d a1 a2 c =
     (let r1 = heap d ! a1; r2 = heap d ! a2 in
      Inr (alloc d ((op_region r1 r2 c ''facet'')
                      \<lparr>facets := set_op c (facets r1) (facets r2)\<rparr>)))"

definition eval_op_cells :: "Domain \<Rightarrow> addr \<Rightarrow> addr \<Rightarrow> char \<Rightarrow> error + (Domain \<times> addr)" where
  "eval_op_cells d a1 a2 c =
     (let r1 = heap d ! a1; r2 = heap d ! a2 in
      Inr (alloc d ((op_region r1 r2 c ''cell'')
                      \<lparr>cells := set_op c (cells r1) (cells r2)\<rparr>)))"

text \<open>
  \<^verbatim>\<open>region_op(level, op_code, item1, item2)\<close>. The dictionary
  \<^verbatim>\<open>{'S' : '-', 'A' : '+', 'I' : '*'}\<close> is subscripted with \<^verbatim>\<open>token[3]\<close>, then the last
  character of the token selects the method of \<^verbatim>\<open>item1\<close>.
\<close>

definition op_table :: "char \<rightharpoonup> char" where
  "op_table = [CHR ''S'' \<mapsto> CHR ''-'', CHR ''A'' \<mapsto> CHR ''+'', CHR ''I'' \<mapsto> CHR ''*'']"

definition region_op ::
  "nat \<Rightarrow> op \<Rightarrow> Domain \<Rightarrow> addr \<Rightarrow> addr \<Rightarrow> error + (Domain \<times> addr)" where
  "region_op level op_code d item1 item2 =
     (let tok = token op_code in
      seq (getitem tok 3) (\<lambda>k.
      seq (lookup (op_table k) (KeyError [k])) (\<lambda>c.
        if last tok = CHR ''V'' then eval_op_vertices d item1 item2 c
        else if last tok = CHR ''E'' then eval_op_edges d item1 item2 c
        else if last tok = CHR ''F'' then eval_op_faces d item1 item2 c
        else if last tok = CHR ''S'' then eval_op_facets d item1 item2 c
        else if last tok = CHR ''C'' then eval_op_cells d item1 item2 c
        else Inl (ValueError (''unknown region operator token! ('' @ tok @ '')'')))))"

section \<open>The interpreter of the postfix stack\<close>

text \<open>
  Modelled from the spec: \<^verbatim>\<open>visit_stack(stack, op_visitor, leaf_visitor)\<close> of
  \<^verbatim>\<open>sfepy/fem/parse_regions.py\<close> is not among the sources. It replays the postfix
  tokens with an explicit stack of operands: a leaf token is evaluated and pushed; an
  operator token pops two operands, \<open>item1\<close> the deeper one, and pushes the result; at
  the end exactly one operand must remain. Both visitors are called with level \<open>0\<close>.
\<close>

fun visit ::
  "(nat \<Rightarrow> op \<Rightarrow> Domain \<Rightarrow> addr \<Rightarrow> addr \<Rightarrow> error + (Domain \<times> addr)) \<Rightarrow>
   (nat \<Rightarrow> op \<Rightarrow> Domain \<Rightarrow> error + (Domain \<times> addr)) \<Rightarrow>
   stack_item list \<Rightarrow> addr list \<Rightarrow> Domain \<Rightarrow> error + (Domain \<times> addr)" where
  "visit op_visitor leaf_visitor [] operands d =
     (case operands of
        [r] \<Rightarrow> Inr (d, r)
      | _ \<Rightarrow> Inl (ValueError ''malformed expression''))"
| "visit op_visitor leaf_visitor (Leaf opc # ts) operands d =
     seq (leaf_visitor 0 opc d) (\<lambda>(d', r). visit op_visitor leaf_visitor ts (r # operands) d')"
| "visit op_visitor leaf_visitor (Operator opc # ts) operands d =
     (case operands of
        item2 # item1 # rest \<Rightarrow>
          seq (op_visitor 0 opc d item1 item2)
            (\<lambda>(d', r). visit op_visitor leaf_visitor ts (r # rest) d')
      | _ \<Rightarrow> Inl (ValueError ''malformed expression''))"

text \<open>The visit consumes the shared stack.\<close>

definition visit_stack ::
  "(nat \<Rightarrow> op \<Rightarrow> Domain \<Rightarrow> addr \<Rightarrow> addr \<Rightarrow> error + (Domain \<times> addr)) \<Rightarrow>
   (nat \<Rightarrow> op \<Rightarrow> Domain \<Rightarrow> error + (Domain \<times> addr)) \<Rightarrow>
   Domain \<Rightarrow> error + (Domain \<times> addr)" where
  "visit_stack op_visitor leaf_visitor d =
     visit op_visitor leaf_visitor (region_stack d) [] (d\<lparr>region_stack := []\<rparr>)"

section \<open>The domain's region factory\<close>


text \<open>
  The loop over \<^verbatim>\<open>parents\<close> in \<^verbatim>\<open>create_region\<close>: the first parent that is not the
  name of a region of \<^verbatim>\<open>self.regions\<close> raises \<^verbatim>\<open>ValueError\<close>.
\<close>

fun check_parents_found :: "Domain \<Rightarrow> string \<Rightarrow> string list \<Rightarrow> error + unit" where
  "check_parents_found d nm [] = Inr ()"
| "check_parents_found d nm (p # ps) =
     (if p \<notin> set (map (\<lambda>a. name (heap d ! a)) (regions d)) then
        Inl (ValueError (''parent region '' @ p @ '' of '' @ nm @ '' not found!''))
      else check_parents_found d nm ps)"

text \<open>
  \<^verbatim>\<open>Domain.create_region(name, select, kind, parent, check_parents, functions,
  add_to_regions)\<close>. The result pairs what the call returns or raises with the domain it
  leaves. The attribute assignments after \<^verbatim>\<open>visit_stack\<close> write to the object that the
  visit returned.
\<close>

definition finish_region :: "string \<Rightarrow> string \<Rightarrow> string \<Rightarrow> string option \<Rightarrow> Region \<Rightarrow> Region" where
  "finish_region nm select knd par r =
     update_shape ((set_kind knd (r\<lparr>name := nm, definition_txt := select\<rparr>))\<lparr>parent := par\<rparr>)"

definition create_region ::
  "Services \<Rightarrow> Domain \<Rightarrow> string \<Rightarrow> string \<Rightarrow> string \<Rightarrow> string option \<Rightarrow> bool \<Rightarrow> registry \<Rightarrow>
   bool \<Rightarrow> (error + addr) \<times> Domain" where
  "create_region sv d nm select knd par check_parents fs add_to_regions =
     (case (if check_parents then check_parents_found d nm (get_parents sv select)
            else Inr ()) of
        Inl e \<Rightarrow> (Inl e, d)
      | Inr u \<Rightarrow>
          (let (pushed, ok) = parseString sv select;
               d1 = d\<lparr>region_stack := region_stack d @ pushed\<rparr> in
           if \<not> ok then (Inl (ParseException select), d1)
           else
             (case visit_stack region_op (\<lambda>level opc d'. region_leaf sv d' select fs level opc) d1 of
                Inl e \<Rightarrow> (Inl e, d1\<lparr>region_stack := []\<rparr>)
              | Inr (d2, r) \<Rightarrow>
                  (let d3 = d2\<lparr>heap := (heap d2)[r := finish_region nm select knd par (heap d2 ! r)]\<rparr>
                   in (Inr r, if add_to_regions then d3\<lparr>regions := regions d3 @ [r]\<rparr> else d3)))))"

section \<open>Reference scanning and a small example domain\<close>

text \<open>
  Modelled from the spec: \<^verbatim>\<open>get_parents(select)\<close> of \<^verbatim>\<open>sfepy/fem/region.py\<close> is not
  among the sources. It scans the raw selection text for the occurrences of the
  named-reference pattern \<^verbatim>\<open>r.<name>\<close>, from left to right and without overlap, and
  returns the names; a name is a non-empty run of letters, digits and underscores.
\<close>

definition is_name_char :: "char \<Rightarrow> bool" where
  "is_name_char c =
     (let n = (of_char c :: nat) in
      (48 \<le> n \<and> n \<le> 57) \<or> (65 \<le> n \<and> n \<le> 90) \<or> (97 \<le> n \<and> n \<le> 122) \<or> n = 95)"

function scan_parents :: "string \<Rightarrow> string list" where
  "scan_parents [] = []"
| "scan_parents (c # cs) =
     (if c = CHR ''r'' \<and> take 1 cs = ''.'' \<and> takeWhile is_name_char (drop 1 cs) \<noteq> [] then
        takeWhile is_name_char (drop 1 cs) # scan_parents (dropWhile is_name_char (drop 1 cs))
      else scan_parents cs)"
  by pat_completeness auto
termination
  by (relation "measure length")
    (auto simp: less_Suc_eq_le intro: le_trans [OF length_dropWhile_le])

text \<open>
  The mesh of the examples: four vertices at \<open>(0,0)\<close>, \<open>(1,0)\<close>, \<open>(0,1)\<close>, \<open>(1,1)\<close>
  and one group with one cell.
\<close>

definition example_mesh :: Mesh where
  "example_mesh =
     \<lparr>n_nod = 4, dim = 2, coors = [[0, 0], [1, 0], [0, 1], [1, 1]], ngroups = [0, 0, 0, 0],
      nodal_bcs = Map.empty, el_offsets = [0]\<rparr>"

definition example_domain :: Domain where
  "example_domain =
     \<lparr>mesh = example_mesh, mat_ids_to_i_gs = [0 \<mapsto> 0], groups = [0 \<mapsto> 1],
      surface_facets = [0, 1, 2, 3], centroids = [[1 / 2, 1 / 2]],
      regions = [], region_stack = [], heap = []\<rparr>"

text \<open>
  The token stacks of the selection texts used in the examples, as the grammar of the spec
  produces them in postfix order; the operator codes carry the combinator at position 3
  and the target kind as their last character, as \<^verbatim>\<open>region_op\<close> reads them. Every
  other text is rejected.
\<close>

definition leaf_tok :: "string \<Rightarrow> string list \<Rightarrow> stack_item" where
  "leaf_tok t ds = Leaf \<lparr>token = t, orig = ds\<rparr>"

definition op_tok :: "string \<Rightarrow> string list \<Rightarrow> stack_item" where
  "op_tok t ds = Operator \<lparr>token = t, orig = ds\<rparr>"

definition example_stacks :: "(string \<times> stack_item list) list" where
  "example_stacks =
     [(''all'', [leaf_tok ''KW_All'' [''all'']]),
      (''vertex 0 1 2'', [leaf_tok ''E_VI'' [''vertex'', ''0'', ''1'', ''2'']]),
      (''vertex 2 3'', [leaf_tok ''E_VI'' [''vertex'', ''2'', ''3'']]),
      (''vertex 0 9'', [leaf_tok ''E_VI'' [''vertex'', ''0'', ''9'']]),
      (''vertex 0 0 1 1'', [leaf_tok ''E_VI'' [''vertex'', ''0'', ''0'', ''1'', ''1'']]),
      (''vertices in [0, 9]'', [leaf_tok ''E_VIR'' [''vertices'', ''in'', ''[0, 9]'']]),
      (''r.A'', [leaf_tok ''KW_Region'' [''nocopy'', ''r.A'']]),
      (''copy r.A'', [leaf_tok ''KW_Region'' [''copy'', ''r.A'']]),
      (''vertex in r.A'', [leaf_tok ''E_OVIR'' [''vertex'', ''in'', ''nocopy'', ''r.A'']]),
      (''r.R1 -v r.R2'',
         [leaf_tok ''KW_Region'' [''nocopy'', ''r.R1''],
          leaf_tok ''KW_Region'' [''nocopy'', ''r.R2''], op_tok ''OA_SubV'' [''-v'']]),
      (''r.R1 +v r.R2'',
         [leaf_tok ''KW_Region'' [''nocopy'', ''r.R1''],
          leaf_tok ''KW_Region'' [''nocopy'', ''r.R2''], op_tok ''OA_AddV'' [''+v'']]),
      (''r.R1 *v r.R2'',
         [leaf_tok ''KW_Region'' [''nocopy'', ''r.R1''],
          leaf_tok ''KW_Region'' [''nocopy'', ''r.R2''], op_tok ''OA_IntersectV'' [''*v'']])]"

definition example_services :: Services where
  "example_services =
     \<lparr>eval_list = (\<lambda>s. if s = ''[0, 9]'' then Some [0, 9] else None),
      eval_relation = (\<lambda>s c. None),
      parseString = (\<lambda>s. case map_of example_stacks s of
                              None \<Rightarrow> ([], False) | Some ts \<Rightarrow> (ts, True)),
      get_parents = scan_parents\<rparr>"

section \<open>Dependency resolution and \<^verbatim>\<open>create_regions\<close>\<close>

text \<open>
  One region definition of \<^verbatim>\<open>region_defs\<close>: its name, its selection text and the
  optional entries \<^verbatim>\<open>kind\<close> and \<^verbatim>\<open>parent\<close>. The dictionary \<^verbatim>\<open>region_defs\<close> is a list
  of pairs of a key (the sort name) and a definition, in the order the dictionary is
  iterated.
\<close>

record RegionDef =
  rd_name :: string
  select :: string
  rd_kind :: "string option"
  rd_parent :: "string option"












section \<open>Saving regions as groups\<close>






section \<open>The statements of the specification\<close>

text \<open>
  The entity-kind field that a target-kind code selects and the set operation that a
  combinator code stands for, in the words of the specification: \<open>V\<close>, \<open>E\<close>, \<open>F\<close>, \<open>S\<close>,
  \<open>C\<close> for vertices, edges, faces, facets and cells; subtract is the set difference, add
  the union, intersect the intersection.
\<close>

definition spec_field :: "char \<Rightarrow> Region \<Rightarrow> index list" where
  "spec_field k r =
     (if k = CHR ''V'' then vertices r
      else if k = CHR ''E'' then edges r
      else if k = CHR ''F'' then faces r
      else if k = CHR ''S'' then facets r
      else cells r)"

definition spec_combine :: "char \<Rightarrow> index set \<Rightarrow> index set \<Rightarrow> index set" where
  "spec_combine k A B =
     (if k = CHR ''S'' then A - B else if k = CHR ''A'' then A \<union> B else A \<inter> B)"





text \<open>Further domains of the examples.\<close>

definition huge_domain :: Domain where
  "huge_domain = example_domain\<lparr>mesh := example_mesh\<lparr>n_nod := 4294967297\<rparr>\<rparr>"

definition domain_A :: Domain where
  "domain_A =
     snd (create_region example_services example_domain ''A'' ''all'' ''vertex'' None True None True)"

definition domain_R12 :: Domain where
  "domain_R12 =
     snd (create_region example_services
            (snd (create_region example_services example_domain ''R1'' ''vertex 0 1 2''
                    ''vertex'' None True None True))
            ''R2'' ''vertex 2 3'' ''vertex'' None True None True)"





text \<open>
  Two states of the domain present the same object at two addresses when both addresses
  are in the store and hold equal values. Two states give the same view when they agree
  on the mesh and on the data of the collaborators and their region lists present, entry
  by entry, the same objects; the store may otherwise differ (other addresses, further
  objects).
\<close>

definition same_obj :: "Domain \<Rightarrow> Domain \<Rightarrow> addr \<Rightarrow> addr \<Rightarrow> bool" where
  "same_obj d1 d2 a1 a2 =
     (a1 < length (heap d1) \<and> a2 < length (heap d2) \<and> heap d1 ! a1 = heap d2 ! a2)"

definition same_view :: "Domain \<Rightarrow> Domain \<Rightarrow> bool" where
  "same_view d1 d2 =
     (mesh d1 = mesh d2 \<and> mat_ids_to_i_gs d1 = mat_ids_to_i_gs d2 \<and> groups d1 = groups d2 \<and>
      surface_facets d1 = surface_facets d2 \<and> centroids d1 = centroids d2 \<and>
      list_all2 (same_obj d1 d2) (regions d1) (regions d2))"

text \<open>
  The registered user functions are blind to the store when their result depends on the
  view of the domain only.
\<close>

definition blind :: "registry \<Rightarrow> bool" where
  "blind fs = (\<forall>m w f c a b. fs = Some m \<and> m w = Some f \<and> same_view a b \<longrightarrow> f c a = f c b)"

text \<open>
  A state extends another by new objects; two evaluations have the same outcome when
  both raise the same error or both extend their states and return the same object.
\<close>

definition extends :: "Domain \<Rightarrow> Domain \<Rightarrow> bool" where
  "extends d d' = (\<exists>xs. d' = d\<lparr>heap := heap d @ xs\<rparr>)"

definition same_outcome ::
  "Domain \<Rightarrow> Domain \<Rightarrow> error + (Domain \<times> addr) \<Rightarrow> error + (Domain \<times> addr) \<Rightarrow> bool" where
  "same_outcome d1 d2 r1 r2 =
     (case r1 of
        Inl e1 \<Rightarrow> r2 = Inl e1
      | Inr (d1', a1) \<Rightarrow>
          (case r2 of
             Inl e2 \<Rightarrow> False
           | Inr (d2', a2) \<Rightarrow> extends d1 d1' \<and> extends d2 d2' \<and> same_obj d1' d2' a1 a2))"

text \<open>What a call of \<^verbatim>\<open>create_region\<close> raises, or the value of the region it returns.\<close>

definition result_region :: "(error + addr) \<times> Domain \<Rightarrow> error + Region" where
  "result_region res = (case res of (Inl e, d) \<Rightarrow> Inl e | (Inr a, d) \<Rightarrow> Inr (heap d ! a))"

text \<open>
  The domain with the region \<^verbatim>\<open>A\<close> after one call of \<^verbatim>\<open>create_region\<close> for
  \<^verbatim>\<open>vertex in r.A\<close> that did not register its result.
\<close>

definition domain_A_again :: Domain where
  "domain_A_again =
     snd (create_region example_services domain_A ''B'' ''vertex in r.A'' ''vertex'' None True
            None False)"

lemmas eval_defs = region_leaf_def leaf_new_def leaf_reference_def seq_def lookup_def alloc_def
  example_domain_def example_mesh_def example_services_def example_stacks_def leaf_tok_def
  op_tok_def create_region_def visit_stack_def getitem_def py_digits_def is_digit_def
  decimal_def uint32_array_def Region_init_def finish_region_def set_kind_def update_shape_def
  is_name_char_def region_op_def op_table_def getitem_name_def copy_region_def
  eval_op_vertices_def op_region_def set_op_def checked_vertices_def assert_failed_def
  arange_def

section \<open>Properties\<close>

lemma unat_arange: "n \<le> 2 ^ 32 \<Longrightarrow> map unat (arange n) = [0..<n]"
  unfolding arange_def
  by (rule nth_equalityI) (simp_all add: unat_of_nat)

text \<open>
  Claim C3, amended. Evaluating the whole-domain leaf \<^verbatim>\<open>all\<close> on a domain whose vertex
  count \<^verbatim>\<open>n_nod\<close> is at most \<open>2 ^ 32\<close> returns a new region whose vertex array holds
  exactly the indices \<open>0, ..., n_nod - 1\<close>, each once and in order.
\<close>

theorem all_selects_every_vertex:
  assumes "n_nod (mesh d) \<le> 2 ^ 32"
  shows "\<exists>d' a. region_leaf sv d rdef fs level \<lparr>token = ''KW_All'', orig = details\<rparr> = Inr (d', a)
           \<and> map unat (vertices (heap d' ! a)) = [0..<n_nod (mesh d)]"
  using unat_arange [OF assms]
  by (simp add: region_leaf_def leaf_new_def seq_def alloc_def)

theorem all_selects_every_vertex_witness:
  "\<exists>d' a. region_leaf example_services example_domain ''all'' None 0
             \<lparr>token = ''KW_All'', orig = [''all'']\<rparr> = Inr (d', a)
           \<and> map unat (vertices (heap d' ! a)) = [0..<4]"
proof -
  have "n_nod (mesh example_domain) \<le> 2 ^ 32"
    by (simp add: example_domain_def example_mesh_def)
  from all_selects_every_vertex [OF this, of example_services "''all''" None 0 "[''all'']"]
  show ?thesis
    by (simp add: example_domain_def example_mesh_def)
qed

text \<open>
  The claim as stated fails on a mesh of \<open>2 ^ 32 + 1\<close> vertices: the indices are stored
  as \<^verbatim>\<open>uint32\<close>, so the index \<open>2 ^ 32\<close> is not in the region.
\<close>

theorem all_on_huge_mesh_counterexample:
  "\<not> (\<exists>d' a. region_leaf example_services huge_domain ''all'' None 0
                 \<lparr>token = ''KW_All'', orig = [''all'']\<rparr> = Inr (d', a)
              \<and> unat ` set (vertices (heap d' ! a)) = {0..<n_nod (mesh huge_domain)})"
proof
  assume "\<exists>d' a. region_leaf example_services huge_domain ''all'' None 0
                 \<lparr>token = ''KW_All'', orig = [''all'']\<rparr> = Inr (d', a)
              \<and> unat ` set (vertices (heap d' ! a)) = {0..<n_nod (mesh huge_domain)}"
  then obtain vs :: "index list" where "unat ` set vs = {0..<4294967297}"
    by (auto simp: region_leaf_def leaf_new_def seq_def alloc_def huge_domain_def)
  then have "(4294967296::nat) \<in> unat ` set vs" by simp
  then obtain v :: index where "unat v = 4294967296" by auto
  moreover have "unat v < 2 ^ 32" using unsigned_less [of v] by simp
  ultimately show False by simp
qed

text \<open>
  Claim C10. A single-vertex-of-region leaf (\<^verbatim>\<open>E_OVIR\<close>) that references a materialized
  region \<open>R\<close> returns a new region whose vertex array is the first entry of the vertex
  array of \<open>R\<close> if \<open>R\<close> has a vertex, and is empty otherwise; no error is raised.
\<close>

theorem single_vertex_of_region:
  assumes "3 < length details"
    and "find (heap d) (regions d) (drop 2 (details ! 3)) = Some aux"
  shows "\<exists>d' a. region_leaf sv d rdef fs level \<lparr>token = ''E_OVIR'', orig = details\<rparr> = Inr (d', a)
           \<and> vertices (heap d' ! a) =
               (case vertices (heap d ! aux) of [] \<Rightarrow> [] | v # vs \<Rightarrow> [v])"
  using assms
  by (simp add: region_leaf_def leaf_new_def seq_def lookup_def alloc_def getitem_def
      getitem_name_def split: list.splits)

lemma domain_A_eval:
  "regions domain_A = [0] \<and> length (heap domain_A) = 1 \<and> name (heap domain_A ! 0) = ''A''
   \<and> vertices (heap domain_A ! 0) = [0, 1, 2, 3] \<and> region_stack domain_A = []
   \<and> mesh domain_A = example_mesh"
  by (simp add: domain_A_def eval_defs upt_rec)

theorem single_vertex_of_region_witness:
  "\<exists>d' a. region_leaf example_services domain_A ''vertex in r.A'' None 0
             \<lparr>token = ''E_OVIR'', orig = [''vertex'', ''in'', ''nocopy'', ''r.A'']\<rparr> = Inr (d', a)
           \<and> vertices (heap d' ! a) = [0]"
proof -
  have 1: "3 < length [''vertex'', ''in'', ''nocopy'', ''r.A'']" by simp
  have 2: "find (heap domain_A) (regions domain_A)
             (drop 2 ([''vertex'', ''in'', ''nocopy'', ''r.A''] ! 3)) = Some 0"
    using domain_A_eval by simp
  from single_vertex_of_region [OF 1 2, of example_services "''vertex in r.A''" None 0]
  show ?thesis using domain_A_eval by simp
qed

lemma find_Some: "find h rs nm = Some a \<Longrightarrow> a \<in> set rs \<and> name (h ! a) = nm"
  by (induction rs) (auto split: if_splits)

text \<open>
  Claim C5, amended. A named-reference leaf (\<^verbatim>\<open>KW_Region\<close>) is evaluated against the
  materialized regions, whose addresses lie in the store. If no region has the name, the
  evaluation raises. If one has, what decides between a duplicate and an alias is the
  selection text \<open>rdef\<close> of the region being defined, not the leaf: if the first four
  characters of the whole text are \<^verbatim>\<open>copy\<close>, the result is a new object (an address
  different from the referenced one and from every registered region) whose value equals
  the referenced region's, which itself stays as it was; otherwise the result is the
  address of the referenced region itself, and nothing changes.
\<close>

theorem named_reference_leaf:
  assumes "1 < length details"
    and "\<forall>a \<in> set (regions d). a < length (heap d)"
  shows "(find (heap d) (regions d) (drop 2 (details ! 1)) = None \<longrightarrow>
            (\<exists>e. region_leaf sv d rdef fs level \<lparr>token = ''KW_Region'', orig = details\<rparr> = Inl e))
       \<and> (\<forall>aux. find (heap d) (regions d) (drop 2 (details ! 1)) = Some aux \<longrightarrow>
            name (heap d ! aux) = drop 2 (details ! 1) \<and>
            (if take 4 rdef = ''copy'' then
               (\<exists>d' a. region_leaf sv d rdef fs level \<lparr>token = ''KW_Region'', orig = details\<rparr> = Inr (d', a)
                  \<and> a \<noteq> aux \<and> a \<notin> set (regions d) \<and> heap d' ! a = heap d ! aux
                  \<and> heap d' ! aux = heap d ! aux \<and> regions d' = regions d)
             else region_leaf sv d rdef fs level \<lparr>token = ''KW_Region'', orig = details\<rparr> = Inr (d, aux)))"
  using assms
  by (auto simp: region_leaf_def leaf_reference_def seq_def getitem_def alloc_def
      copy_region_def nth_append dest!: find_Some)

theorem named_reference_leaf_witness:
  "(\<exists>e. region_leaf example_services example_domain ''r.A'' None 0
           \<lparr>token = ''KW_Region'', orig = [''nocopy'', ''r.A'']\<rparr> = Inl e)
   \<and> region_leaf example_services domain_A ''r.A'' None 0
           \<lparr>token = ''KW_Region'', orig = [''nocopy'', ''r.A'']\<rparr> = Inr (domain_A, 0)
   \<and> (\<exists>d' a. region_leaf example_services domain_A ''copy r.A'' None 0
           \<lparr>token = ''KW_Region'', orig = [''copy'', ''r.A'']\<rparr> = Inr (d', a)
         \<and> a \<noteq> 0 \<and> heap d' ! a = heap domain_A ! 0 \<and> heap d' ! 0 = heap domain_A ! 0)"
proof -
  have l1: "1 < length [''nocopy'', ''r.A'']" and l2: "1 < length [''copy'', ''r.A'']"
    by simp_all
  have w0: "\<forall>a \<in> set (regions example_domain). a < length (heap example_domain)"
    by (simp add: example_domain_def)
  have wA: "\<forall>a \<in> set (regions domain_A). a < length (heap domain_A)"
    using domain_A_eval by simp
  have f0: "find (heap example_domain) (regions example_domain)
              (drop 2 ([''nocopy'', ''r.A''] ! 1)) = None"
    by (simp add: example_domain_def)
  have fA: "find (heap domain_A) (regions domain_A) (drop 2 ([''nocopy'', ''r.A''] ! 1)) = Some 0"
    and fC: "find (heap domain_A) (regions domain_A) (drop 2 ([''copy'', ''r.A''] ! 1)) = Some 0"
    using domain_A_eval by simp_all
  from named_reference_leaf [OF l1 w0, of example_services "''r.A''" None 0] f0
  have a: "\<exists>e. region_leaf example_services example_domain ''r.A'' None 0
           \<lparr>token = ''KW_Region'', orig = [''nocopy'', ''r.A'']\<rparr> = Inl e"
    by blast
  from named_reference_leaf [OF l1 wA, of example_services "''r.A''" None 0] fA
  have b: "region_leaf example_services domain_A ''r.A'' None 0
           \<lparr>token = ''KW_Region'', orig = [''nocopy'', ''r.A'']\<rparr> = Inr (domain_A, 0)"
    by simp
  from named_reference_leaf [OF l2 wA, of example_services "''copy r.A''" None 0] fC
  have c: "\<exists>d' a. region_leaf example_services domain_A ''copy r.A'' None 0
           \<lparr>token = ''KW_Region'', orig = [''copy'', ''r.A'']\<rparr> = Inr (d', a)
         \<and> a \<noteq> 0 \<and> heap d' ! a = heap domain_A ! 0 \<and> heap d' ! 0 = heap domain_A ! 0"
    by simp blast
  from a b c show ?thesis by blast
qed

text \<open>
  The claim as the specification words it, with the copy request read off the leaf, fails
  on the domain that holds the region \<^verbatim>\<open>A\<close>. In the text \<^verbatim>\<open>r.A +v copy r.A\<close> the leaf
  \<^verbatim>\<open>copy r.A\<close> requests a copy and evaluates to the registered object itself, because the
  text does not start with \<^verbatim>\<open>copy\<close>; in the text \<^verbatim>\<open>copy r.A +v r.A\<close> the plain leaf
  \<^verbatim>\<open>r.A\<close> requests none and evaluates to a new object.
\<close>

theorem copy_request_of_leaf_counterexample:
  "region_leaf example_services domain_A ''r.A +v copy r.A'' None 0
       \<lparr>token = ''KW_Region'', orig = [''copy'', ''r.A'']\<rparr> = Inr (domain_A, 0)
   \<and> (\<exists>d' a. region_leaf example_services domain_A ''copy r.A +v r.A'' None 0
           \<lparr>token = ''KW_Region'', orig = [''nocopy'', ''r.A'']\<rparr> = Inr (d', a)
         \<and> a \<noteq> 0 \<and> a \<notin> set (regions domain_A) \<and> heap d' ! a = heap domain_A ! 0)"
  using domain_A_eval
  by (simp add: region_leaf_def leaf_reference_def seq_def getitem_def alloc_def
      copy_region_def nth_append)

lemma set_op_diff: "set (set_op CHR ''-'' xs ys) = set xs - set ys"
  and set_op_union: "set (set_op CHR ''+'' xs ys) = set xs \<union> set ys"
  and set_op_inter: "set (set_op CHR ''*'' xs ys) = set xs \<inter> set ys"
  by (auto simp: set_op_def)

text \<open>
  Claim C1. For operand regions \<open>item1\<close> and \<open>item2\<close> and an operator token whose
  combinator code (position 3) is \<open>S\<close>, \<open>A\<close> or \<open>I\<close> and whose target-kind code (the last
  character) is \<open>V\<close>, \<open>E\<close>, \<open>F\<close>, \<open>S\<close> or \<open>C\<close>, the operator evaluator returns a region whose
  field of the target kind holds the set difference \<open>item1 - item2\<close>, the union or the
  intersection of the operands' fields of that kind.
\<close>

theorem region_op_set_algebra:
  assumes "3 < length tok"
    and "tok ! 3 \<in> {CHR ''S'', CHR ''A'', CHR ''I''}"
    and "last tok \<in> {CHR ''V'', CHR ''E'', CHR ''F'', CHR ''S'', CHR ''C''}"
  shows "\<exists>d' a. region_op level \<lparr>token = tok, orig = ds\<rparr> d item1 item2 = Inr (d', a)
           \<and> set (spec_field (last tok) (heap d' ! a)) =
               spec_combine (tok ! 3) (set (spec_field (last tok) (heap d ! item1)))
                                      (set (spec_field (last tok) (heap d ! item2)))"
  using assms
  by (auto simp: region_op_def seq_def lookup_def getitem_def op_table_def
      eval_op_vertices_def eval_op_edges_def eval_op_faces_def eval_op_facets_def
      eval_op_cells_def alloc_def op_region_def set_kind_def Region_init_def
      spec_field_def spec_combine_def set_op_diff set_op_union set_op_inter Let_def)

lemma domain_R12_eval:
  "regions domain_R12 = [0, 1] \<and> length (heap domain_R12) = 2
   \<and> name (heap domain_R12 ! 0) = ''R1'' \<and> vertices (heap domain_R12 ! 0) = [0, 1, 2]
   \<and> name (heap domain_R12 ! 1) = ''R2'' \<and> vertices (heap domain_R12 ! 1) = [2, 3]
   \<and> region_stack domain_R12 = [] \<and> mesh domain_R12 = example_mesh"
  by (simp add: domain_R12_def eval_defs)

text \<open>The regions \<open>R1 = {0, 1, 2}\<close> and \<open>R2 = {2, 3}\<close> of the specification.\<close>

theorem region_op_set_algebra_witness:
  "(\<exists>d' a. region_op 0 \<lparr>token = ''OA_SubV'', orig = [''-v'']\<rparr> domain_R12 0 1 = Inr (d', a)
       \<and> set (vertices (heap d' ! a)) = {0, 1})
   \<and> (\<exists>d' a. region_op 0 \<lparr>token = ''OA_AddV'', orig = [''+v'']\<rparr> domain_R12 0 1 = Inr (d', a)
       \<and> set (vertices (heap d' ! a)) = {0, 1, 2, 3})
   \<and> (\<exists>d' a. region_op 0 \<lparr>token = ''OA_IntersectV'', orig = [''*v'']\<rparr> domain_R12 0 1 = Inr (d', a)
       \<and> set (vertices (heap d' ! a)) = {2})"
proof -
  have s: "3 < length ''OA_SubV''" "''OA_SubV'' ! 3 \<in> {CHR ''S'', CHR ''A'', CHR ''I''}"
    "last ''OA_SubV'' \<in> {CHR ''V'', CHR ''E'', CHR ''F'', CHR ''S'', CHR ''C''}"
    by simp_all
  have a: "3 < length ''OA_AddV''" "''OA_AddV'' ! 3 \<in> {CHR ''S'', CHR ''A'', CHR ''I''}"
    "last ''OA_AddV'' \<in> {CHR ''V'', CHR ''E'', CHR ''F'', CHR ''S'', CHR ''C''}"
    by simp_all
  have i: "3 < length ''OA_IntersectV''"
    "''OA_IntersectV'' ! 3 \<in> {CHR ''S'', CHR ''A'', CHR ''I''}"
    "last ''OA_IntersectV'' \<in> {CHR ''V'', CHR ''E'', CHR ''F'', CHR ''S'', CHR ''C''}"
    by simp_all
  have 1: "\<exists>d' a. region_op 0 \<lparr>token = ''OA_SubV'', orig = [''-v'']\<rparr> domain_R12 0 1 = Inr (d', a)
       \<and> set (vertices (heap d' ! a)) = {0, 1}"
    using region_op_set_algebra [OF s, of 0 "[''-v'']" domain_R12 0 1] domain_R12_eval
    by (simp add: spec_field_def spec_combine_def insert_Diff_if)
  have 2: "\<exists>d' a. region_op 0 \<lparr>token = ''OA_AddV'', orig = [''+v'']\<rparr> domain_R12 0 1 = Inr (d', a)
       \<and> set (vertices (heap d' ! a)) = {0, 1, 2, 3}"
    using region_op_set_algebra [OF a, of 0 "[''+v'']" domain_R12 0 1] domain_R12_eval
    by (simp add: spec_field_def spec_combine_def insert_commute)
  have 3: "\<exists>d' a. region_op 0 \<lparr>token = ''OA_IntersectV'', orig = [''*v'']\<rparr> domain_R12 0 1 = Inr (d', a)
       \<and> set (vertices (heap d' ! a)) = {2}"
    using region_op_set_algebra [OF i, of 0 "[''*v'']" domain_R12 0 1] domain_R12_eval
    by (simp add: spec_field_def spec_combine_def)
  from 1 2 3 show ?thesis by blast
qed

text \<open>
  The same three results through \<^verbatim>\<open>create_region\<close>, from the selection texts
  \<^verbatim>\<open>r.R1 -v r.R2\<close>, \<^verbatim>\<open>r.R1 +v r.R2\<close> and \<^verbatim>\<open>r.R1 *v r.R2\<close>.
\<close>

lemma scenario_B:
  "(\<exists>a d'. create_region example_services domain_R12 ''D'' ''r.R1 -v r.R2'' ''vertex'' None
              True None True = (Inr a, d') \<and> vertices (heap d' ! a) = [0, 1])
   \<and> (\<exists>a d'. create_region example_services domain_R12 ''U'' ''r.R1 +v r.R2'' ''vertex'' None
              True None True = (Inr a, d') \<and> vertices (heap d' ! a) = [0, 1, 2, 3])
   \<and> (\<exists>a d'. create_region example_services domain_R12 ''I'' ''r.R1 *v r.R2'' ''vertex'' None
              True None True = (Inr a, d') \<and> vertices (heap d' ! a) = [2])"
  by (simp add: domain_R12_def eval_defs)

text \<open>
  Claim C4, the input on which the code departs from it. On the mesh of four vertices the
  selection \<^verbatim>\<open>vertex 0 9\<close> names the index 9, which is not below \<^verbatim>\<open>n_nod\<close>. The
  \<^verbatim>\<open>E_VI\<close> branch of \<^verbatim>\<open>region_leaf\<close> converts the indices and stores them without a
  check: \<^verbatim>\<open>create_region\<close> returns a region with the vertices \<open>[0, 9]\<close> and registers it
  under the name. The bracketed form \<^verbatim>\<open>vertices in [0, 9]\<close> of the same list fails its
  assertion and registers nothing.
\<close>

theorem vertex_list_out_of_range:
  "n_nod (mesh example_domain) = 4
   \<and> (\<exists>a d'. create_region example_services example_domain ''R'' ''vertex 0 9'' ''vertex'' None
                True None True = (Inr a, d')
         \<and> regions d' = [a] \<and> name (heap d' ! a) = ''R''
         \<and> map unat (vertices (heap d' ! a)) = [0, 9])
   \<and> (\<exists>d'. create_region example_services example_domain ''R'' ''vertices in [0, 9]'' ''vertex''
                None True None True = (Inl assert_failed, d')
         \<and> regions d' = [])"
  by (simp add: eval_defs)

text \<open>
  Claim C6, the input on which the code departs from it. On the domain that holds the
  region \<^verbatim>\<open>A\<close> (selected by \<^verbatim>\<open>all\<close>), the definition of a region \<^verbatim>\<open>B\<close> by the text
  \<^verbatim>\<open>r.A\<close> evaluates to the registered object of \<^verbatim>\<open>A\<close> itself; \<^verbatim>\<open>create_region\<close> then
  assigns the name, the definition, the kind and the parent on that object and appends it
  to the region list a second time. Afterwards no region is named \<^verbatim>\<open>A\<close>.
\<close>

theorem alias_overwrites_referenced_region:
  "regions domain_A = [0] \<and> name (heap domain_A ! 0) = ''A''
   \<and> definition_txt (heap domain_A ! 0) = ''all'' \<and> kind (heap domain_A ! 0) = ''vertex''
   \<and> (\<exists>d'. create_region example_services domain_A ''B'' ''r.A'' ''cell'' None True None True
               = (Inr 0, d')
         \<and> regions d' = [0, 0] \<and> name (heap d' ! 0) = ''B''
         \<and> definition_txt (heap d' ! 0) = ''r.A'' \<and> kind (heap d' ! 0) = ''cell''
         \<and> find (heap d') (regions d') ''A'' = None)"
  by (simp add: domain_A_def eval_defs)

text \<open>
  Claim C7, amended. When the selection text fails to parse, \<^verbatim>\<open>create_region\<close> raises,
  nothing is evaluated and the region list and every region object are as before. The
  error is the parse error, unless \<^verbatim>\<open>check_parents\<close> is set and the text references
  a region that is not registered: that is found first and raises the \<^verbatim>\<open>ValueError\<close> of
  the parent check.
\<close>

theorem parse_failure_registers_nothing:
  assumes "\<not> snd (parseString sv sel)"
  shows "\<exists>e d'. create_region sv d nm sel knd par cp fs add = (Inl e, d')
           \<and> regions d' = regions d \<and> heap d' = heap d
           \<and> e = (case (if cp then check_parents_found d nm (get_parents sv sel) else Inr ())
                    of Inl e' \<Rightarrow> e' | Inr u \<Rightarrow> ParseException sel)"
  using assms
  by (auto simp: create_region_def split: sum.splits prod.splits)

theorem parse_failure_registers_nothing_witness:
  "(\<exists>d'. create_region example_services domain_A ''B'' ''r.A +'' ''cell'' None True None True
            = (Inl (ParseException ''r.A +''), d') \<and> regions d' = regions domain_A
          \<and> heap d' = heap domain_A)
   \<and> (\<exists>d'. create_region example_services example_domain ''B'' ''r.X +'' ''cell'' None False
              None True = (Inl (ParseException ''r.X +''), d')
          \<and> regions d' = regions example_domain \<and> heap d' = heap example_domain)"
proof -
  have p1: "\<not> snd (parseString example_services ''r.A +'')"
    and p2: "\<not> snd (parseString example_services ''r.X +'')"
    by (simp_all add: example_services_def example_stacks_def)
  have g: "get_parents example_services ''r.A +'' = [''A'']"
    by (simp add: example_services_def is_name_char_def)
  have c: "check_parents_found domain_A ''B'' [''A''] = Inr ()"
    using domain_A_eval by simp
  from parse_failure_registers_nothing [OF p1, of domain_A "''B''" "''cell''" None True None True]
    g c
  have 1: "\<exists>d'. create_region example_services domain_A ''B'' ''r.A +'' ''cell'' None True
              None True = (Inl (ParseException ''r.A +''), d') \<and> regions d' = regions domain_A
            \<and> heap d' = heap domain_A"
    by simp
  from parse_failure_registers_nothing
         [OF p2, of example_domain "''B''" "''cell''" None False None True]
  have 2: "\<exists>d'. create_region example_services example_domain ''B'' ''r.X +'' ''cell'' None
              False None True = (Inl (ParseException ''r.X +''), d')
            \<and> regions d' = regions example_domain \<and> heap d' = heap example_domain"
    by simp
  from 1 2 show ?thesis by blast
qed

text \<open>
  The claim as the specification words it fails on the text \<^verbatim>\<open>r.X +\<close> with the parent
  check on: the text does not parse, and what is raised is not a parse error.
\<close>

theorem parse_failure_other_error_counterexample:
  "\<not> snd (parseString example_services ''r.X +'')
   \<and> fst (create_region example_services example_domain ''B'' ''r.X +'' ''cell'' None True None
            True) = Inl (ValueError ''parent region X of B not found!'')
   \<and> (\<forall>s. fst (create_region example_services example_domain ''B'' ''r.X +'' ''cell'' None True
                  None True) \<noteq> Inl (ParseException s))"
  by (simp add: eval_defs)


































lemma extends_refl: "extends d d"
  by (auto simp: extends_def intro: exI [of _ "[]"])

lemma extends_alloc: "extends d (fst (alloc d r))"
  by (auto simp: extends_def alloc_def)

lemma extends_trans: "extends d d' \<Longrightarrow> extends d' d'' \<Longrightarrow> extends d d''"
  by (auto simp: extends_def)

lemma same_obj_extends:
  "same_obj d1 d2 a1 a2 \<Longrightarrow> extends d1 d1' \<Longrightarrow> extends d2 d2' \<Longrightarrow> same_obj d1' d2' a1 a2"
  by (auto simp: same_obj_def extends_def nth_append)

lemma same_objs_extends:
  "list_all2 (same_obj d1 d2) as bs \<Longrightarrow> extends d1 d1' \<Longrightarrow> extends d2 d2' \<Longrightarrow>
     list_all2 (same_obj d1' d2') as bs"
  by (erule list_all2_mono) (rule same_obj_extends)

lemma same_view_extends:
  "same_view d1 d2 \<Longrightarrow> extends d1 d1' \<Longrightarrow> extends d2 d2' \<Longrightarrow> same_view d1' d2'"
  unfolding same_view_def
  using same_objs_extends [of d1 d2 "regions d1" "regions d2" d1' d2']
  by (auto simp: extends_def)

lemma same_outcome_extends:
  "same_outcome d1' d2' r1 r2 \<Longrightarrow> extends d1 d1' \<Longrightarrow> extends d2 d2' \<Longrightarrow> same_outcome d1 d2 r1 r2"
  by (auto simp: same_outcome_def split: sum.splits prod.splits intro: extends_trans)

lemma find_same:
  "list_all2 (same_obj d1 d2) rs1 rs2 \<Longrightarrow>
     rel_option (same_obj d1 d2) (find (heap d1) rs1 nm) (find (heap d2) rs2 nm)"
  by (induction rule: list_all2_induct) (auto simp: same_obj_def)

lemma names_same:
  "list_all2 (same_obj d1 d2) rs1 rs2 \<Longrightarrow>
     map (\<lambda>a. name (heap d1 ! a)) rs1 = map (\<lambda>a. name (heap d2 ! a)) rs2"
  by (induction rule: list_all2_induct) (auto simp: same_obj_def)

lemma check_parents_found_same:
  "same_view d1 d2 \<Longrightarrow> check_parents_found d1 nm ps = check_parents_found d2 nm ps"
  using names_same [of d1 d2 "regions d1" "regions d2"]
  by (induction ps) (auto simp: same_view_def)

lemma ci2_cells_same:
  "mesh d1 = mesh d2 \<Longrightarrow> ci2_cells d1 details ii k = ci2_cells d2 details ii k"
  by (induction k arbitrary: ii) (simp_all add: el_offset_def)

lemma checked_vertices_same:
  "mesh d1 = mesh d2 \<Longrightarrow> checked_vertices d1 xs = checked_vertices d2 xs"
  by (simp add: checked_vertices_def Let_def)

lemma function_same:
  assumes "same_view d1 d2" and "blind fs"
  shows "seq (lookup_function fs w) (\<lambda>f. Inr (g (f c d1))) =
         seq (lookup_function fs w) (\<lambda>f. Inr (g (f c d2)))"
proof (cases "lookup_function fs w")
  case (Inl e)
  then show ?thesis by (simp add: seq_def)
next
  case (Inr f)
  then obtain m where "fs = Some m" "m w = Some f"
    by (auto simp: lookup_function_def seq_def lookup_def split: option.splits)
  with assms have "f c d1 = f c d2"
    unfolding blind_def by blast
  with Inr show ?thesis by (simp add: seq_def)
qed

lemma first_vertex_same:
  assumes "same_view d1 d2"
  shows "seq (getitem_name (heap d1) (regions d1) s) (\<lambda>aux. Inr (g (vertices (heap d1 ! aux)))) =
         seq (getitem_name (heap d2) (regions d2) s) (\<lambda>aux. Inr (g (vertices (heap d2 ! aux))))"
  using find_same [of d1 d2 "regions d1" "regions d2" s] assms
  by (auto simp: same_view_def getitem_name_def lookup_def seq_def same_obj_def
      elim!: option.rel_cases)

lemma leaf_new_same:
  assumes "same_view d1 d2" and "blind fs"
  shows "leaf_new sv d1 fs tok details region = leaf_new sv d2 fs tok details region"
proof -
  from assms(1) have m: "mesh d1 = mesh d2" "mat_ids_to_i_gs d1 = mat_ids_to_i_gs d2"
    "groups d1 = groups d2" "surface_facets d1 = surface_facets d2" "centroids d1 = centroids d2"
    by (simp_all add: same_view_def)
  note f1 = function_same [OF assms, of _ "\<lambda>v. region\<lparr>vertices := v\<rparr>"]
  note f2 = function_same [OF assms, of _ "\<lambda>v. region\<lparr>cells := v\<rparr>"]
  note v = first_vertex_same [OF assms(1), of _ "\<lambda>v. region\<lparr>vertices := take 1 v\<rparr>"]
  show ?thesis
    unfolding leaf_new_def
    by (simp only: m f1 f2 v ci2_cells_same [OF m(1)] checked_vertices_same [OF m(1)])
qed

lemma leaf_reference_same:
  assumes "same_view d1 d2"
  shows "same_outcome d1 d2 (leaf_reference d1 rdef details) (leaf_reference d2 rdef details)"
proof (cases "getitem details 1")
  case (Inl e)
  then show ?thesis
    by (simp add: leaf_reference_def seq_def same_outcome_def)
next
  case (Inr s)
  from assms have "rel_option (same_obj d1 d2) (find (heap d1) (regions d1) (drop 2 s))
      (find (heap d2) (regions d2) (drop 2 s))"
    by (simp add: same_view_def find_same)
  then show ?thesis
  proof (cases rule: option.rel_cases)
    case None
    with Inr show ?thesis
      by (simp add: leaf_reference_def seq_def same_outcome_def)
  next
    case (Some a1 a2)
    show ?thesis
    proof (cases "take 4 rdef = ''copy''")
      case True
      with Some Inr show ?thesis
        by (auto simp: leaf_reference_def seq_def same_outcome_def alloc_def extends_def
            same_obj_def nth_append)
    next
      case False
      with Some Inr show ?thesis
        by (simp add: leaf_reference_def seq_def same_outcome_def extends_refl)
    qed
  qed
qed

lemma alloc_same:
  "r1 = r2 \<Longrightarrow> same_outcome d1 d2 (Inr (alloc d1 r1)) (Inr (alloc d2 r2))"
  by (auto simp: same_outcome_def alloc_def extends_def same_obj_def)

lemma region_leaf_same:
  assumes "same_view d1 d2" and "blind fs"
  shows "same_outcome d1 d2 (region_leaf sv d1 rdef fs level opc)
           (region_leaf sv d2 rdef fs level opc)"
proof (cases "token opc = ''KW_Region''")
  case True
  with leaf_reference_same [OF assms(1)] show ?thesis
    by (simp add: region_leaf_def)
next
  case False
  let ?r = "Region_init ''leaf'' rdef (token opc @ ''<'' @ join_sp (orig opc) @ ''>'')"
  have e: "leaf_new sv d1 fs (token opc) (orig opc) ?r = leaf_new sv d2 fs (token opc) (orig opc) ?r"
    using assms by (rule leaf_new_same)
  show ?thesis
  proof (cases "leaf_new sv d2 fs (token opc) (orig opc) ?r")
    case (Inl err)
    with e False show ?thesis
      by (simp add: region_leaf_def seq_def same_outcome_def)
  next
    case (Inr r)
    with e False alloc_same [of r r d1 d2] show ?thesis
      by (simp add: region_leaf_def seq_def)
  qed
qed

lemma eval_op_same:
  assumes "same_obj d1 d2 a1 a2" and "same_obj d1 d2 b1 b2"
  shows "same_outcome d1 d2 (eval_op_vertices d1 a1 b1 c) (eval_op_vertices d2 a2 b2 c)"
    and "same_outcome d1 d2 (eval_op_edges d1 a1 b1 c) (eval_op_edges d2 a2 b2 c)"
    and "same_outcome d1 d2 (eval_op_faces d1 a1 b1 c) (eval_op_faces d2 a2 b2 c)"
    and "same_outcome d1 d2 (eval_op_facets d1 a1 b1 c) (eval_op_facets d2 a2 b2 c)"
    and "same_outcome d1 d2 (eval_op_cells d1 a1 b1 c) (eval_op_cells d2 a2 b2 c)"
  using assms
  by (simp_all add: eval_op_vertices_def eval_op_edges_def eval_op_faces_def eval_op_facets_def
      eval_op_cells_def Let_def alloc_same same_obj_def)

lemma region_op_same:
  assumes "same_obj d1 d2 a1 a2" and "same_obj d1 d2 b1 b2"
  shows "same_outcome d1 d2 (region_op level opc d1 a1 b1) (region_op level opc d2 a2 b2)"
proof (cases "getitem (token opc) 3")
  case (Inl e)
  then show ?thesis by (simp add: region_op_def seq_def same_outcome_def)
next
  case k: (Inr k)
  show ?thesis
  proof (cases "lookup (op_table k) (KeyError [k])")
    case (Inl e)
    with k show ?thesis by (simp add: region_op_def seq_def same_outcome_def)
  next
    case (Inr c)
    with k eval_op_same [OF assms, of c] show ?thesis
      by (simp add: region_op_def seq_def Let_def same_outcome_def [of _ _ "Inl _"])
  qed
qed

lemma same_outcome_Inr:
  assumes "same_outcome d1 d2 (Inr (d1', a1)) r2"
  obtains d2' a2 where "r2 = Inr (d2', a2)" "extends d1 d1'" "extends d2 d2'"
    "same_obj d1' d2' a1 a2"
  using assms by (auto simp: same_outcome_def split: sum.splits prod.splits)

lemma visit_same:
  assumes "blind fs"
  shows "same_view d1 d2 \<Longrightarrow> list_all2 (same_obj d1 d2) ops1 ops2 \<Longrightarrow>
     same_outcome d1 d2
       (visit region_op (\<lambda>level opc d'. region_leaf sv d' sel fs level opc) ts ops1 d1)
       (visit region_op (\<lambda>level opc d'. region_leaf sv d' sel fs level opc) ts ops2 d2)"
proof (induction ts arbitrary: ops1 ops2 d1 d2)
  case Nil
  then show ?case
    by (auto simp: same_outcome_def extends_refl list_all2_Cons1 split: list.splits)
next
  case (Cons t ts)
  let ?lv = "\<lambda>level opc d'. region_leaf sv d' sel fs level opc"
  have step: "same_outcome d1 d2 (seq r1 (\<lambda>(d', r). visit region_op ?lv ts (r # rest1) d'))
                (seq r2 (\<lambda>(d', r). visit region_op ?lv ts (r # rest2) d'))"
    if so: "same_outcome d1 d2 r1 r2" and rest: "list_all2 (same_obj d1 d2) rest1 rest2"
    for r1 r2 rest1 rest2
  proof (cases r1)
    case (Inl e)
    with so show ?thesis by (simp add: same_outcome_def seq_def)
  next
    case (Inr p1)
    obtain d1' a1 where p1: "p1 = (d1', a1)" by (cases p1)
    from so Inr p1 obtain d2' a2 where r2: "r2 = Inr (d2', a2)"
      and ex: "extends d1 d1'" "extends d2 d2'" and ob: "same_obj d1' d2' a1 a2"
      by (auto elim: same_outcome_Inr)
    have v: "same_view d1' d2'"
      using Cons.prems(1) ex by (rule same_view_extends)
    have "list_all2 (same_obj d1' d2') rest1 rest2"
      using rest ex by (rule same_objs_extends)
    with ob have o: "list_all2 (same_obj d1' d2') (a1 # rest1) (a2 # rest2)"
      by simp
    from Cons.IH [OF v o] have "same_outcome d1 d2 (visit region_op ?lv ts (a1 # rest1) d1')
        (visit region_op ?lv ts (a2 # rest2) d2')"
      using ex by (rule same_outcome_extends)
    with Inr p1 r2 show ?thesis by (simp add: seq_def)
  qed
  show ?case
  proof (cases t)
    case (Leaf opc)
    from step [OF region_leaf_same [OF Cons.prems(1) assms, of sv sel 0 opc] Cons.prems(2)] Leaf
    show ?thesis by simp
  next
    case (Operator opc)
    show ?thesis
    proof (cases ops1)
      case Nil
      with Cons.prems(2) Operator show ?thesis
        by (simp add: same_outcome_def)
    next
      case c1: (Cons b1 t1)
      with Cons.prems(2) obtain b2 t2 where o2: "ops2 = b2 # t2" and b: "same_obj d1 d2 b1 b2"
        and t: "list_all2 (same_obj d1 d2) t1 t2"
        by (auto simp: list_all2_Cons1)
      show ?thesis
      proof (cases t1)
        case Nil
        with t c1 o2 Operator show ?thesis
          by (simp add: same_outcome_def)
      next
        case c2: (Cons a1 rest1)
        with t obtain a2 rest2 where t2: "t2 = a2 # rest2" and a: "same_obj d1 d2 a1 a2"
          and r: "list_all2 (same_obj d1 d2) rest1 rest2"
          by (auto simp: list_all2_Cons1)
        from step [OF region_op_same [OF a b, of 0 opc] r] Operator c1 c2 o2 t2
        show ?thesis by simp
      qed
    qed
  qed
qed

lemma same_view_stack:
  "same_view d1 d2 \<Longrightarrow> same_view (d1\<lparr>region_stack := s1\<rparr>) (d2\<lparr>region_stack := s2\<rparr>)"
proof -
  have "same_obj (d1\<lparr>region_stack := s1\<rparr>) (d2\<lparr>region_stack := s2\<rparr>) = same_obj d1 d2"
    by (intro ext) (simp add: same_obj_def)
  then show "same_view d1 d2 \<Longrightarrow> same_view (d1\<lparr>region_stack := s1\<rparr>) (d2\<lparr>region_stack := s2\<rparr>)"
    by (simp add: same_view_def)
qed

text \<open>
  Claim C8. Two calls of \<^verbatim>\<open>create_region\<close> with the same name, selection text and other
  arguments, on two states of the domain that agree on the mesh data and on the parser's
  stack and whose materialized regions are equal, entry by entry, as values, raise the
  same error or return regions that are equal in every field, the vertex, edge, face,
  facet and cell arrays among them. The states may differ in the identity of the objects
  and in objects that are not registered, as the state after a first call differs from
  the state before it. The parser and the registered functions are functions of their
  arguments, the latter blind to the store.
\<close>

theorem create_region_deterministic:
  assumes "same_view d1 d2" and "region_stack d1 = region_stack d2" and "blind fs"
  shows "result_region (create_region sv d1 nm sel knd par cp fs add) =
         result_region (create_region sv d2 nm sel knd par cp fs add)"
proof -
  let ?lv = "\<lambda>level opc d'. region_leaf sv d' sel fs level opc"
  let ?c = "\<lambda>d. if cp then check_parents_found d nm (get_parents sv sel) else Inr ()"
  have c: "?c d1 = ?c d2"
    using check_parents_found_same [OF assms(1)] by simp
  obtain pushed ok where ps: "parseString sv sel = (pushed, ok)"
    by (cases "parseString sv sel")
  let ?s = "region_stack d2 @ pushed"
  let ?r1 = "visit region_op ?lv ?s [] (d1\<lparr>region_stack := []\<rparr>)"
  let ?r2 = "visit region_op ?lv ?s [] (d2\<lparr>region_stack := []\<rparr>)"
  have so: "same_outcome (d1\<lparr>region_stack := []\<rparr>) (d2\<lparr>region_stack := []\<rparr>) ?r1 ?r2"
    using assms(3) same_view_stack [OF assms(1)] by (rule visit_same) simp
  show ?thesis
  proof (cases "?c d2")
    case (Inl e)
    with c show ?thesis
      by (simp add: create_region_def result_region_def)
  next
    case chk: (Inr u)
    show ?thesis
    proof (cases ok)
      case False
      with chk c ps show ?thesis
        by (simp add: create_region_def result_region_def)
    next
      case True
      show ?thesis
      proof (cases ?r1)
        case (Inl e)
        with so have "?r2 = Inl e"
          by (simp add: same_outcome_def)
        with Inl chk c ps True assms(2) show ?thesis
          by (simp add: create_region_def result_region_def visit_stack_def)
      next
        case (Inr p1)
        obtain d1' a1 where p1: "p1 = (d1', a1)" by (cases p1)
        from so Inr p1 obtain d2' a2 where r2: "?r2 = Inr (d2', a2)"
          and ob: "same_obj d1' d2' a1 a2"
          by (auto elim: same_outcome_Inr)
        with Inr p1 chk c ps True assms(2) show ?thesis
          by (simp add: create_region_def result_region_def visit_stack_def same_obj_def Let_def)
      qed
    qed
  qed
qed

lemma domain_A_again_eval:
  "regions domain_A_again = [0] \<and> length (heap domain_A_again) = 2
   \<and> heap domain_A_again ! 0 = heap domain_A ! 0 \<and> region_stack domain_A_again = []
   \<and> mesh domain_A_again = mesh domain_A
   \<and> mat_ids_to_i_gs domain_A_again = mat_ids_to_i_gs domain_A
   \<and> groups domain_A_again = groups domain_A
   \<and> surface_facets domain_A_again = surface_facets domain_A
   \<and> centroids domain_A_again = centroids domain_A"
  by (simp add: domain_A_again_def domain_A_def eval_defs)

theorem create_region_deterministic_witness:
  "length (heap domain_A) \<noteq> length (heap domain_A_again)
   \<and> result_region (create_region example_services domain_A ''B'' ''vertex in r.A'' ''vertex''
        None True None False)
     = result_region (create_region example_services domain_A_again ''B'' ''vertex in r.A''
        ''vertex'' None True None False)"
proof -
  have v: "same_view domain_A domain_A_again"
    using domain_A_eval domain_A_again_eval
    by (simp add: same_view_def same_obj_def)
  have s: "region_stack domain_A = region_stack domain_A_again"
    using domain_A_eval domain_A_again_eval by simp
  have b: "blind None"
    by (simp add: blind_def)
  from create_region_deterministic [OF v s b] show ?thesis
    using domain_A_eval domain_A_again_eval by simp
qed

end
